theory Spec2Isabelle
  imports Complex_Main
begin

section \<open>Data model of the CircleDivider component\<close>

text \<open>
  The component keeps its data in React state variables and paints on a 2D canvas.
  A JavaScript \<^verbatim>\<open>number\<close> that holds a coordinate, an angle or a distance is modelled
  as a \<^typ>\<open>real\<close>: where it is only painted, it is the value without the rounding of the
  64-bit floating-point format; where it decides a branch, in \<^verbatim>\<open>snapToPoint\<close>, the
  arithmetic is a parameter. A
  number that holds a count or an index is a \<^typ>\<open>nat\<close> or an \<^typ>\<open>int\<close>. A string is a
  list of code units below 256. The fields \<^verbatim>\<open>x\<close> and \<^verbatim>\<open>y\<close> of a point are \<open>px\<close> and \<open>py\<close>
  here, the fields \<^verbatim>\<open>start\<close> and \<^verbatim>\<open>end\<close> of a line are \<open>line_start\<close> and \<open>line_end\<close>.
\<close>

record Point =
  px :: real
  py :: real

record DrawnLine =
  line_start :: Point
  line_end :: Point
  color :: string
  thickness :: nat

text \<open>One field for each \<^verbatim>\<open>useState\<close> variable, in the order of the source.\<close>

record state =
  divisions :: nat
  rules :: "string list"
  drawingMode :: bool
  drawingColor :: string
  showRuleLines :: bool
  showOnlyPattern :: bool
  currentRule :: string
  isDrawing :: bool
  startPoint :: "Point option"
  drawnLines :: "DrawnLine list"
  undoStack :: "DrawnLine list list"
  redoStack :: "DrawnLine list list"
  showInstructions :: bool
  lineThickness :: nat
  freeDrawing :: bool
  showRuleExplanation :: bool

text \<open>The initial values passed to \<^verbatim>\<open>useState\<close>.\<close>

definition initialState :: state where
  "initialState =
     \<lparr>divisions = 12, rules = [], drawingMode = False, drawingColor = ''#000000'',
      showRuleLines = True, showOnlyPattern = False, currentRule = '''',
      isDrawing = False, startPoint = None, drawnLines = [], undoStack = [],
      redoStack = [], showInstructions = True, lineThickness = 2,
      freeDrawing = False, showRuleExplanation = False\<rparr>"

definition canvasSize :: real where
  "canvasSize = 800"

definition radius :: real where
  "radius = canvasSize / 2.5"

definition center :: real where
  "center = canvasSize / 2"

definition ruleLineColor :: string where
  "ruleLineColor = ''#4A5568''"

definition dotRadius :: real where
  "dotRadius = 5"

section \<open>Drawing history\<close>

text \<open>
  A handler reads the state of the render it was created in and calls setters; the
  state of the next render is the old one with the set fields replaced.
\<close>

definition handleRemoveRule :: "state \<Rightarrow> string \<Rightarrow> state" where
  "handleRemoveRule s ruleToRemove =
     s\<lparr>rules := filter (\<lambda>rule. rule \<noteq> ruleToRemove) (rules s)\<rparr>"

definition handleUndo :: "state \<Rightarrow> state" where
  "handleUndo s =
     (if length (undoStack s) > 0 then
        (let previousState = last (undoStack s)
         in s\<lparr>redoStack := redoStack s @ [drawnLines s],
              drawnLines := previousState,
              undoStack := butlast (undoStack s)\<rparr>)
      else s)"

definition handleRedo :: "state \<Rightarrow> state" where
  "handleRedo s =
     (if length (redoStack s) > 0 then
        (let nextState = last (redoStack s)
         in s\<lparr>undoStack := undoStack s @ [drawnLines s],
              drawnLines := nextState,
              redoStack := butlast (redoStack s)\<rparr>)
      else s)"

definition handleResetDrawing :: "state \<Rightarrow> state" where
  "handleResetDrawing s =
     s\<lparr>undoStack := undoStack s @ [drawnLines s], drawnLines := [], redoStack := []\<rparr>"

text \<open>
  \<^verbatim>\<open>handleResetAll\<close> calls six setters and then \<^verbatim>\<open>handleResetDrawing\<close>, which reads
  only \<^verbatim>\<open>undoStack\<close> and \<^verbatim>\<open>drawnLines\<close>, fields the six setters leave alone.
\<close>

definition handleResetAll :: "state \<Rightarrow> state" where
  "handleResetAll s =
     handleResetDrawing
       (s\<lparr>divisions := 12, rules := [], drawingMode := False,
          drawingColor := ''#000000'', showRuleLines := True,
          showOnlyPattern := False\<rparr>)"

section \<open>Geometry\<close>

text \<open>
  The position of division point \<open>i\<close> of \<open>n\<close>, as the loops of \<^verbatim>\<open>drawCircle\<close> and
  \<^verbatim>\<open>snapToPoint\<close> compute it (the same four lines in both): the angle in degrees,
  its conversion to radians, and the point on the circle. This is the value without
  rounding, and \<open>distance\<close> is the Euclidean distance without rounding.
\<close>

definition divisionPoint :: "nat \<Rightarrow> nat \<Rightarrow> Point" where
  "divisionPoint i n =
     (let angle = (real i * 360) / real n;
          radian = (angle * pi) / 180
      in \<lparr>px = center + radius * cos radian, py = center + radius * sin radian\<rparr>)"

definition distance :: "real \<Rightarrow> real \<Rightarrow> Point \<Rightarrow> real" where
  "distance x y point = sqrt ((x - px point)\<^sup>2 + (y - py point)\<^sup>2)"

text \<open>
  The numbers of the program are IEEE 754 doubles: every operation rounds, and
  \<^verbatim>\<open>Math.cos\<close>, \<^verbatim>\<open>Math.sin\<close>, \<^verbatim>\<open>Math.pow\<close> and \<^verbatim>\<open>Math.sqrt\<close> are approximations that the
  language leaves to the implementation. \<^verbatim>\<open>snapToPoint\<close> branches on comparisons of
  such numbers, so there the arithmetic is a parameter: the operations on doubles, as
  functions on the reals that the doubles are. The comparisons \<^verbatim>\<open><\<close> and \<^verbatim>\<open><=\<close> of
  doubles are the comparisons of these reals.
\<close>

record arith =
  fadd :: "real \<Rightarrow> real \<Rightarrow> real"
  fsub :: "real \<Rightarrow> real \<Rightarrow> real"
  fmul :: "real \<Rightarrow> real \<Rightarrow> real"
  fdiv :: "real \<Rightarrow> real \<Rightarrow> real"
  fcos :: "real \<Rightarrow> real"
  fsin :: "real \<Rightarrow> real"
  fsqrt :: "real \<Rightarrow> real"
  fpow :: "real \<Rightarrow> real \<Rightarrow> real"
  fpi :: real

text \<open>The arithmetic that does not round.\<close>

definition exact :: arith where
  "exact =
     \<lparr>fadd = (\<lambda>a b. a + b), fsub = (\<lambda>a b. a - b), fmul = (\<lambda>a b. a * b),
      fdiv = (\<lambda>a b. a / b), fcos = cos, fsin = sin, fsqrt = sqrt,
      fpow = (\<lambda>a k. a ^ nat \<lfloor>k\<rfloor>), fpi = pi\<rparr>"

text \<open>
  The four lines of the loop of \<^verbatim>\<open>snapToPoint\<close> that compute \<^verbatim>\<open>pointX\<close> and \<^verbatim>\<open>pointY\<close>,
  and the line that computes \<^verbatim>\<open>distance\<close>, in a given arithmetic. The constants
  \<^verbatim>\<open>center\<close> and \<^verbatim>\<open>radius\<close> are the doubles 400 and 320.
\<close>

definition machinePoint :: "arith \<Rightarrow> nat \<Rightarrow> nat \<Rightarrow> Point" where
  "machinePoint ar i n =
     (let angle = fdiv ar (fmul ar (real i) 360) (real n);
          radian = fdiv ar (fmul ar angle (fpi ar)) 180;
          pointX = fadd ar center (fmul ar radius (fcos ar radian));
          pointY = fadd ar center (fmul ar radius (fsin ar radian))
      in \<lparr>px = pointX, py = pointY\<rparr>)"

definition machineDistance :: "arith \<Rightarrow> real \<Rightarrow> real \<Rightarrow> Point \<Rightarrow> real" where
  "machineDistance ar x y point =
     fsqrt ar (fadd ar (fpow ar (fsub ar x (px point)) 2) (fpow ar (fsub ar y (py point)) 2))"

text \<open>
  \<^verbatim>\<open>minDistance\<close> starts as \<^verbatim>\<open>Infinity\<close>, here \<open>None\<close>: every distance is below it,
  and it is not \<open>\<le> 20\<close>.
\<close>

fun lessInf :: "real \<Rightarrow> real option \<Rightarrow> bool" where
  "lessInf d None = True"
| "lessInf d (Some m) = (d < m)"

fun leInf :: "real option \<Rightarrow> real \<Rightarrow> bool" where
  "leInf None r = False"
| "leInf (Some m) r = (m \<le> r)"

text \<open>One pass of the loop body of \<^verbatim>\<open>snapToPoint\<close> on \<open>(closestPoint, minDistance)\<close>.\<close>

definition snapStep ::
  "arith \<Rightarrow> nat \<Rightarrow> real \<Rightarrow> real \<Rightarrow> nat \<Rightarrow> Point \<times> real option \<Rightarrow> Point \<times> real option" where
  "snapStep ar n x y i acc =
     (let point = machinePoint ar i n;
          d = machineDistance ar x y point
      in if lessInf d (snd acc) then (point, Some d) else acc)"

definition snapToPoint :: "arith \<Rightarrow> nat \<Rightarrow> real \<Rightarrow> real \<Rightarrow> Point" where
  "snapToPoint ar n x y =
     (let (closestPoint, minDistance) =
            fold (snapStep ar n x y) [0..<n] (\<lparr>px = x, py = y\<rparr>, None)
      in if leInf minDistance 20 then closestPoint else \<lparr>px = x, py = y\<rparr>)"

section \<open>Rule text\<close>

text \<open>
  \<^verbatim>\<open>String.prototype.trim\<close> and \<^verbatim>\<open>parseInt\<close> skip white space and line terminators;
  these are the ones below 256.
\<close>

definition isWhiteSpace :: "char \<Rightarrow> bool" where
  "isWhiteSpace c = ((of_char c :: nat) \<in> {9, 10, 11, 12, 13, 32, 160})"

definition trim :: "string \<Rightarrow> string" where
  "trim str = rev (dropWhile isWhiteSpace (rev (dropWhile isWhiteSpace str)))"

text \<open>
  \<^verbatim>\<open>str.split('+')\<close>: the pieces between the separators; a text without separator is
  one piece, the empty text is one empty piece.
\<close>

fun split :: "char \<Rightarrow> string \<Rightarrow> string list" where
  "split sep [] = [[]]"
| "split sep (c # cs) =
     (if c = sep then [] # split sep cs
      else (case split sep cs of
              [] \<Rightarrow> [[c]]
            | t # ts \<Rightarrow> (c # t) # ts))"

text \<open>The value of a character as a digit of \<^verbatim>\<open>parseInt\<close>; 36 for any other character.\<close>

definition digitValue :: "char \<Rightarrow> nat" where
  "digitValue c =
     (let k = (of_char c :: nat)
      in if 48 \<le> k \<and> k \<le> 57 then k - 48
         else if 97 \<le> k \<and> k \<le> 122 then k - 87
         else if 65 \<le> k \<and> k \<le> 90 then k - 55
         else 36)"

text \<open>
  \<^verbatim>\<open>parseInt(str)\<close> with no radix, as ECMAScript defines it: skip leading white space,
  read a sign, read a \<^verbatim>\<open>0x\<close> or \<^verbatim>\<open>0X\<close> prefix (then the radix is 16, else 10), take the
  longest run of digits of the radix and ignore what follows it; \<^verbatim>\<open>NaN\<close>, here \<open>None\<close>,
  when that run is empty. The result is the exact integer: a JavaScript number is
  exact below \<open>2 ^ 53\<close>, and the component compares the result with a division count
  of at most 36, so a larger value is out of range with or without rounding.
\<close>

definition parseInt :: "string \<Rightarrow> int option" where
  "parseInt str =
     (let S = dropWhile isWhiteSpace str;
          sign = (if S \<noteq> [] \<and> hd S = CHR ''-'' then - 1 else 1 :: int);
          S1 = (if S \<noteq> [] \<and> (hd S = CHR ''+'' \<or> hd S = CHR ''-'') then tl S else S);
          hex = (take 2 S1 = ''0x'' \<or> take 2 S1 = ''0X'');
          R = (if hex then 16 else 10 :: nat);
          S2 = (if hex then drop 2 S1 else S1);
          Z = takeWhile (\<lambda>c. digitValue c < R) S2
      in if Z = [] then None
         else Some (sign * int (foldl (\<lambda>a c. a * R + digitValue c) 0 Z)))"

text \<open>Reading an array element: \<^verbatim>\<open>undefined\<close> past the end, which \<^verbatim>\<open>isNaN\<close> takes as \<^verbatim>\<open>NaN\<close>.\<close>

definition element :: "'a option list \<Rightarrow> nat \<Rightarrow> 'a option" where
  "element xs i = (if i < length xs then xs ! i else None)"

text \<open>
  The destructuring \<^verbatim>\<open>const [a, b] = text.split('+').map(n => parseInt(n.trim()))\<close>, the
  first line of both \<^verbatim>\<open>handleAddRule\<close> and the loop body of \<^verbatim>\<open>drawRuleLines\<close>.
\<close>

definition parseRule :: "string \<Rightarrow> int option \<times> int option" where
  "parseRule text =
     (let parsed = map (\<lambda>n. parseInt (trim n)) (split CHR ''+'' text)
      in (element parsed 0, element parsed 1))"

text \<open>The decimal text of an integer, as a template literal prints it.\<close>

definition digitChar :: "nat \<Rightarrow> char" where
  "digitChar d = ''0123456789'' ! d"

fun showNat :: "nat \<Rightarrow> string" where
  "showNat n =
     (if n < 10 then [digitChar n]
      else showNat (n div 10) @ [digitChar (n mod 10)])"

declare showNat.simps [simp del]

definition numberToString :: "int \<Rightarrow> string" where
  "numberToString k = (if k < 0 then CHR ''-'' # showNat (nat (- k)) else showNat (nat k))"

text \<open>The template literal \<^verbatim>\<open>`${start}+${end}`\<close>.\<close>

definition newRule :: "int \<Rightarrow> int \<Rightarrow> string" where
  "newRule start end' = numberToString start @ ''+'' @ numberToString end'"

definition invalidRuleMessage :: string where
  "invalidRuleMessage =
     ''Invalid rule format. Please use \"start+end\" where both are valid division numbers.''"

text \<open>
  \<^verbatim>\<open>handleAddRule\<close> returns the next state and the text of the \<^verbatim>\<open>alert\<close>, if it raised
  one.
\<close>

definition handleAddRule :: "state \<Rightarrow> state \<times> string option" where
  "handleAddRule s =
     (case parseRule (currentRule s) of
        (Some start, Some end') \<Rightarrow>
          if start \<ge> 0 \<and> end' \<ge> 0 \<and> start < int (divisions s) \<and> end' < int (divisions s)
          then (if newRule start end' \<notin> set (rules s)
                then (s\<lparr>rules := rules s @ [newRule start end'], currentRule := ''''\<rparr>, None)
                else (s, None))
          else (s, Some invalidRuleMessage)
      | _ \<Rightarrow> (s, Some invalidRuleMessage))"

text \<open>The \<^verbatim>\<open>onChange\<close> of the rule input, followed by a click on the add button.\<close>

definition submitRule :: "state \<Rightarrow> string \<Rightarrow> state \<times> string option" where
  "submitRule s text = handleAddRule (s\<lparr>currentRule := text\<rparr>)"

section \<open>Painting\<close>

text \<open>
  The calls on the 2D context, in the order they are made. The handlers are modelled
  with the canvas mounted and its context obtained.
\<close>

datatype canvasOp =
    ClearRect real real real real
  | SetFillGradient
  | SetFillStyle string
  | FillRect real real real real
  | BeginPath
  | SetStrokeStyle string
  | SetLineWidth real
  | Arc real real real
  | Stroke
  | Fill
  | SetTextStyle
  | FillText string real real
  | MoveTo real real
  | LineTo real real

text \<open>The remainder operator \<^verbatim>\<open>%\<close> on integers: the sign of the dividend.\<close>

definition jsRem :: "int \<Rightarrow> int \<Rightarrow> int" where
  "jsRem a b = sgn a * (\<bar>a\<bar> mod \<bar>b\<bar>)"

text \<open>
  The segments that the inner loop of \<^verbatim>\<open>drawRuleLines\<close> computes for one rule text. An
  offset that did not parse makes the end coordinates \<^verbatim>\<open>NaN\<close>, here \<open>None\<close>.
\<close>

definition ruleSegments :: "nat \<Rightarrow> string \<Rightarrow> (Point \<times> Point option) list" where
  "ruleSegments n rule =
     (let offset = snd (parseRule rule)
      in map (\<lambda>i.
           (let startAngle = (real i / real n) * 2 * pi;
                endAngle = map_option
                  (\<lambda>k. (real_of_int (jsRem (int i + k) (int n)) / real n) * 2 * pi) offset
            in (\<lparr>px = center + radius * cos startAngle,
                 py = center + radius * sin startAngle\<rparr>,
                map_option
                  (\<lambda>e. \<lparr>px = center + radius * cos e, py = center + radius * sin e\<rparr>)
                  endAngle)))
         [0..<n])"

text \<open>The canvas ignores a \<^verbatim>\<open>lineTo\<close> whose arguments are \<^verbatim>\<open>NaN\<close>.\<close>

definition strokeSegment :: "Point \<times> Point option \<Rightarrow> canvasOp list" where
  "strokeSegment seg =
     [BeginPath, MoveTo (px (fst seg)) (py (fst seg))] @
     (case snd seg of None \<Rightarrow> [] | Some e \<Rightarrow> [LineTo (px e) (py e)]) @
     [Stroke]"

definition drawRuleLines :: "state \<Rightarrow> canvasOp list" where
  "drawRuleLines s =
     SetStrokeStyle ruleLineColor #
     concat (map (\<lambda>rule. concat (map strokeSegment (ruleSegments (divisions s) rule)))
               (rules s))"

definition drawDivision :: "nat \<Rightarrow> nat \<Rightarrow> canvasOp list" where
  "drawDivision n i =
     (let angle = (real i * 360) / real n;
          radian = (angle * pi) / 180;
          dot = divisionPoint i n;
          textX = center + (radius + 20) * cos radian;
          textY = center + (radius + 20) * sin radian
      in [BeginPath, SetFillStyle ruleLineColor, Arc (px dot) (py dot) dotRadius, Fill,
          SetFillStyle ruleLineColor, FillText (showNat i) textX textY])"

definition drawLine :: "DrawnLine \<Rightarrow> canvasOp list" where
  "drawLine line =
     [BeginPath, SetStrokeStyle (color line), SetLineWidth (real (thickness line)),
      MoveTo (px (line_start line)) (py (line_start line)),
      LineTo (px (line_end line)) (py (line_end line)), Stroke]"

definition drawCircle :: "state \<Rightarrow> canvasOp list" where
  "drawCircle s =
     [ClearRect 0 0 canvasSize canvasSize, SetFillGradient,
      FillRect 0 0 canvasSize canvasSize] @
     (if \<not> showOnlyPattern s
      then [BeginPath, SetStrokeStyle ruleLineColor, SetLineWidth 2,
            Arc center center radius, Stroke, SetTextStyle] @
           concat (map (drawDivision (divisions s)) [0..<divisions s])
      else []) @
     (if showRuleLines s then drawRuleLines s else []) @
     concat (map drawLine (drawnLines s))"

section \<open>Strokes\<close>

text \<open>
  The pointer handlers take the arithmetic of \<^verbatim>\<open>snapToPoint\<close> and the pointer position
  relative to the canvas, and return the next state with the calls made on the
  context.
\<close>

definition startDrawing ::
  "arith \<Rightarrow> state \<Rightarrow> real \<Rightarrow> real \<Rightarrow> state \<times> canvasOp list" where
  "startDrawing ar s x y =
     (if \<not> drawingMode s then (s, [])
      else if freeDrawing s then (s\<lparr>isDrawing := True\<rparr>, [BeginPath, MoveTo x y])
      else (s\<lparr>startPoint := Some (snapToPoint ar (divisions s) x y), isDrawing := True\<rparr>, []))"

text \<open>
  \<^verbatim>\<open>draw\<close> calls no setter. In point-to-point mode it reads \<^verbatim>\<open>startPoint!.x\<close>, which
  throws when the start point is \<^verbatim>\<open>null\<close>; the error carries what was painted before.
\<close>

datatype error = TypeError "canvasOp list"

definition draw ::
  "arith \<Rightarrow> state \<Rightarrow> real \<Rightarrow> real \<Rightarrow> error + state \<times> canvasOp list" where
  "draw ar s x y =
     (if \<not> isDrawing s \<or> \<not> drawingMode s then Inr (s, [])
      else if freeDrawing s then Inr (s, [LineTo x y, Stroke])
      else (case startPoint s of
              None \<Rightarrow> Inl (TypeError (drawCircle s @ [BeginPath]))
            | Some p \<Rightarrow>
                Inr (s, drawCircle s @
                        [BeginPath, MoveTo (px p) (py p),
                         LineTo (px (snapToPoint ar (divisions s) x y))
                                (py (snapToPoint ar (divisions s) x y)),
                         Stroke])))"

definition stopDrawing ::
  "arith \<Rightarrow> state \<Rightarrow> real \<Rightarrow> real \<Rightarrow> state \<times> canvasOp list" where
  "stopDrawing ar s x y =
     (if \<not> isDrawing s then (s, [])
      else
        (let s1 = (if \<not> freeDrawing s
                   then (case startPoint s of
                           None \<Rightarrow> s
                         | Some p \<Rightarrow>
                             s\<lparr>drawnLines := drawnLines s @
                                  [\<lparr>line_start = p,
                                    line_end = snapToPoint ar (divisions s) x y,
                                    color = drawingColor s,
                                    thickness = lineThickness s\<rparr>]\<rparr>)
                   else s)
         in (s1\<lparr>isDrawing := False, startPoint := None\<rparr>, [BeginPath])))"

text \<open>
  A whole stroke: the pointer goes down at one position and up at another. The states
  and lines below are the ones the history properties are evaluated on.
\<close>

definition stroke ::
  "arith \<Rightarrow> state \<Rightarrow> real \<Rightarrow> real \<Rightarrow> real \<Rightarrow> real \<Rightarrow> state" where
  "stroke ar s x0 y0 x1 y1 = fst (stopDrawing ar (fst (startDrawing ar s x0 y0)) x1 y1)"

definition drawingState :: state where
  "drawingState = initialState\<lparr>drawingMode := True\<rparr>"

definition pressedAfterUndo :: "arith \<Rightarrow> state" where
  "pressedAfterUndo ar =
     fst (startDrawing ar (handleUndo (handleResetDrawing drawingState)) 400 400)"

text \<open>
  The line that a stroke from \<open>(x0, y0)\<close> to \<open>(x1, y1)\<close> commits with 12 divisions and
  the initial colour and thickness.
\<close>

definition strokeLine :: "arith \<Rightarrow> real \<Rightarrow> real \<Rightarrow> real \<Rightarrow> real \<Rightarrow> DrawnLine" where
  "strokeLine ar x0 y0 x1 y1 =
     \<lparr>line_start = snapToPoint ar 12 x0 y0, line_end = snapToPoint ar 12 x1 y1,
      color = ''#000000'', thickness = 2\<rparr>"

definition lineA :: DrawnLine where
  "lineA = \<lparr>line_start = \<lparr>px = 400, py = 400\<rparr>, line_end = \<lparr>px = 400, py = 500\<rparr>,
            color = ''#000000'', thickness = 2\<rparr>"

definition lineB :: DrawnLine where
  "lineB = \<lparr>line_start = \<lparr>px = 400, py = 500\<rparr>, line_end = \<lparr>px = 400, py = 400\<rparr>,
            color = ''#000000'', thickness = 2\<rparr>"

section \<open>Rule text as the specification reads it\<close>

text \<open>
  The specification calls a token valid when it is a non-negative decimal integer:
  a non-empty run of decimal digits, read in base ten. It accepts a rule text made of
  two such tokens around one \<^verbatim>\<open>+\<close>, both below the division count. These definitions
  follow the specification; the handler above does not use them.
\<close>

definition isDecimalDigit :: "char \<Rightarrow> bool" where
  "isDecimalDigit c = (48 \<le> (of_char c :: nat) \<and> (of_char c :: nat) \<le> 57)"

definition validNonNegativeInteger :: "string \<Rightarrow> bool" where
  "validNonNegativeInteger tok = (tok \<noteq> [] \<and> list_all isDecimalDigit tok)"

definition decimalValue :: "string \<Rightarrow> nat" where
  "decimalValue tok = foldl (\<lambda>a c. 10 * a + ((of_char c :: nat) - 48)) 0 tok"

definition specAccepts :: "nat \<Rightarrow> string \<Rightarrow> bool" where
  "specAccepts n text =
     (case split CHR ''+'' text of
        [t1, t2] \<Rightarrow>
          validNonNegativeInteger t1 \<and> validNonNegativeInteger t2 \<and>
          decimalValue t1 < n \<and> decimalValue t2 < n
      | _ \<Rightarrow> False)"

section \<open>Properties of the history operations\<close>

text \<open>
  C7. After \<^verbatim>\<open>handleResetAll\<close> the division count is 12, the rule set and the manual
  layer are empty, the visibility flags hold their defaults, the manual layer of
  before the reset is the top of the undo stack, and the redo stack is empty.
\<close>

theorem handleResetAll_state:
  "divisions (handleResetAll s) = 12 \<and>
   rules (handleResetAll s) = [] \<and>
   drawnLines (handleResetAll s) = [] \<and>
   showRuleLines (handleResetAll s) = True \<and>
   showOnlyPattern (handleResetAll s) = False \<and>
   undoStack (handleResetAll s) = undoStack s @ [drawnLines s] \<and>
   redoStack (handleResetAll s) = []"
  by (simp add: handleResetAll_def handleResetDrawing_def)

text \<open>
  C8. Removing a rule that is not in the rule set, undoing with an empty undo stack
  and redoing with an empty redo stack each return the state unchanged; none of the
  three handlers has an error path.
\<close>

theorem absent_or_empty_noop:
  "(ruleToRemove \<notin> set (rules s) \<longrightarrow> handleRemoveRule s ruleToRemove = s) \<and>
   (undoStack s = [] \<longrightarrow> handleUndo s = s) \<and>
   (redoStack s = [] \<longrightarrow> handleRedo s = s)"
proof (intro conjI impI)
  assume "ruleToRemove \<notin> set (rules s)"
  then have "filter (\<lambda>rule. rule \<noteq> ruleToRemove) (rules s) = rules s"
    by (simp add: filter_id_conv) blast
  then show "handleRemoveRule s ruleToRemove = s"
    by (simp add: handleRemoveRule_def)
next
  assume "undoStack s = []"
  then show "handleUndo s = s" by (simp add: handleUndo_def)
next
  assume "redoStack s = []"
  then show "handleRedo s = s" by (simp add: handleRedo_def)
qed

theorem absent_or_empty_noop_witness:
  "''0+3'' \<notin> set (rules (initialState\<lparr>rules := [''1+2'']\<rparr>)) \<and>
   undoStack (initialState\<lparr>rules := [''1+2'']\<rparr>) = [] \<and>
   redoStack (initialState\<lparr>rules := [''1+2'']\<rparr>) = [] \<and>
   handleRemoveRule (initialState\<lparr>rules := [''1+2'']\<rparr>) ''0+3'' =
     initialState\<lparr>rules := [''1+2'']\<rparr> \<and>
   handleUndo (initialState\<lparr>rules := [''1+2'']\<rparr>) = initialState\<lparr>rules := [''1+2'']\<rparr> \<and>
   handleRedo (initialState\<lparr>rules := [''1+2'']\<rparr>) = initialState\<lparr>rules := [''1+2'']\<rparr>"
  using absent_or_empty_noop [of "''0+3''" "initialState\<lparr>rules := [''1+2'']\<rparr>"]
  by (simp add: initialState_def)

section \<open>Properties of the geometry\<close>

lemma radius_pos: "0 < radius"
  by (simp add: radius_def canvasSize_def)

lemma center_value: "center = 400"
  by (simp add: center_def canvasSize_def)

lemma radius_value: "radius = 320"
  by (simp add: radius_def canvasSize_def)

lemma divisionPoint_sel:
  "px (divisionPoint i n) = center + radius * cos (real i * 360 / real n * pi / 180)"
  "py (divisionPoint i n) = center + radius * sin (real i * 360 / real n * pi / 180)"
  by (simp_all only: divisionPoint_def Let_def Point.simps)

lemma distance_center: "distance center center (divisionPoint i n) = radius"
proof -
  define t where "t = real i * 360 / real n * pi / 180"
  have "(center - (center + radius * cos t))\<^sup>2 + (center - (center + radius * sin t))\<^sup>2
        = (radius * cos t)\<^sup>2 + (radius * sin t)\<^sup>2"
    by simp
  also have "\<dots> = radius\<^sup>2 * ((cos t)\<^sup>2 + (sin t)\<^sup>2)"
    by (simp only: power_mult_distrib distrib_left)
  also have "\<dots> = radius\<^sup>2" by simp
  finally have "distance center center (divisionPoint i n) = sqrt (radius\<^sup>2)"
    by (simp only: distance_def divisionPoint_sel t_def)
  then show ?thesis
    using radius_pos by simp
qed

lemma machinePoint_exact: "machinePoint exact i n = divisionPoint i n"
  by (simp add: machinePoint_def exact_def divisionPoint_def)

lemma machineDistance_exact: "machineDistance exact x y point = distance x y point"
  by (simp add: machineDistance_def exact_def distance_def)

text \<open>
  The scan of \<^verbatim>\<open>snapToPoint\<close> in any arithmetic: after the points \<open>0, \<dots>, m - 1\<close> it holds
  the first of the points whose computed distance is least, with that distance.
\<close>

lemma snapStep_fold:
  "0 < m \<Longrightarrow>
   \<exists>k<m. fold (snapStep ar n x y) [0..<m] (p0, None) =
            (machinePoint ar k n, Some (machineDistance ar x y (machinePoint ar k n))) \<and>
         (\<forall>j<m. machineDistance ar x y (machinePoint ar k n)
                 \<le> machineDistance ar x y (machinePoint ar j n)) \<and>
         (\<forall>j<k. machineDistance ar x y (machinePoint ar k n)
                 < machineDistance ar x y (machinePoint ar j n))"
proof (induction m)
  case 0
  then show ?case by simp
next
  case (Suc m)
  let ?p = "\<lambda>j. machinePoint ar j n"
  let ?d = "\<lambda>j. machineDistance ar x y (machinePoint ar j n)"
  show ?case
  proof (cases "m = 0")
    case True
    then show ?thesis by (simp add: snapStep_def Let_def)
  next
    case False
    with Suc.IH obtain k where k: "k < m"
      and acc: "fold (snapStep ar n x y) [0..<m] (p0, None) = (?p k, Some (?d k))"
      and le: "\<forall>j<m. ?d k \<le> ?d j" and lt: "\<forall>j<k. ?d k < ?d j"
      by auto
    have step: "fold (snapStep ar n x y) [0..<Suc m] (p0, None) =
                snapStep ar n x y m (?p k, Some (?d k))"
      by (simp add: acc)
    show ?thesis
    proof (cases "?d m < ?d k")
      case True
      have "\<forall>j<Suc m. ?d m \<le> ?d j"
        using True le
        by (auto simp: less_Suc_eq intro: order.strict_implies_order order.strict_trans2)
      moreover have "\<forall>j<m. ?d m < ?d j"
        using True le by (auto intro: order.strict_trans2)
      moreover have "fold (snapStep ar n x y) [0..<Suc m] (p0, None) = (?p m, Some (?d m))"
        using True by (simp only: step) (simp add: snapStep_def Let_def)
      ultimately show ?thesis by blast
    next
      case False
      have "\<forall>j<Suc m. ?d k \<le> ?d j"
        using False le by (auto simp: less_Suc_eq)
      moreover have "fold (snapStep ar n x y) [0..<Suc m] (p0, None) = (?p k, Some (?d k))"
        using False by (simp only: step) (simp add: snapStep_def Let_def)
      ultimately show ?thesis using k lt by (intro exI [of _ k]) simp
    qed
  qed
qed

lemma snapToPoint_scan:
  assumes "0 < n"
  shows "\<exists>k<n. snapToPoint ar n x y =
              (if machineDistance ar x y (machinePoint ar k n) \<le> 20 then machinePoint ar k n
               else \<lparr>px = x, py = y\<rparr>) \<and>
           (\<forall>j<n. machineDistance ar x y (machinePoint ar k n)
                   \<le> machineDistance ar x y (machinePoint ar j n)) \<and>
           (\<forall>j<k. machineDistance ar x y (machinePoint ar k n)
                   < machineDistance ar x y (machinePoint ar j n))"
proof -
  let ?p = "\<lambda>j. machinePoint ar j n"
  let ?d = "\<lambda>j. machineDistance ar x y (machinePoint ar j n)"
  from assms snapStep_fold [of n ar n x y "\<lparr>px = x, py = y\<rparr>"]
  obtain k where k: "k < n"
    and acc: "fold (snapStep ar n x y) [0..<n] (\<lparr>px = x, py = y\<rparr>, None) = (?p k, Some (?d k))"
    and le: "\<forall>j<n. ?d k \<le> ?d j" and lt: "\<forall>j<k. ?d k < ?d j"
    by auto
  have "snapToPoint ar n x y = (if ?d k \<le> 20 then ?p k else \<lparr>px = x, py = y\<rparr>)"
    by (simp add: snapToPoint_def acc)
  with k le lt show ?thesis by blast
qed

lemma snapToPoint_far:
  assumes "\<And>i. i < n \<Longrightarrow> 20 < machineDistance ar x y (machinePoint ar i n)"
  shows "snapToPoint ar n x y = \<lparr>px = x, py = y\<rparr>"
proof (cases "n = 0")
  case True
  then show ?thesis by (simp add: snapToPoint_def)
next
  case False
  then obtain k where "k < n"
    and "snapToPoint ar n x y =
           (if machineDistance ar x y (machinePoint ar k n) \<le> 20 then machinePoint ar k n
            else \<lparr>px = x, py = y\<rparr>)"
    using snapToPoint_scan [of n ar x y] by auto
  with assms [of k] show ?thesis by simp
qed

lemma snapToPoint_center: "snapToPoint exact n 400 400 = \<lparr>px = 400, py = 400\<rparr>"
proof (rule snapToPoint_far)
  fix i assume "i < n"
  have "distance center center (divisionPoint i n) = radius" by (rule distance_center)
  then show "20 < machineDistance exact 400 400 (machinePoint exact i n)"
    by (simp add: machinePoint_exact machineDistance_exact center_def radius_def canvasSize_def)
qed

lemma snapToPoint_below_center: "snapToPoint exact n 400 500 = \<lparr>px = 400, py = 500\<rparr>"
proof (rule snapToPoint_far)
  fix i assume "i < n"
  define t where "t = real i * 360 / real n * pi / 180"
  have "(400 - (400 + 320 * cos t))\<^sup>2 + (500 - (400 + 320 * sin t))\<^sup>2
        = (320 * cos t)\<^sup>2 + (100 - 320 * sin t)\<^sup>2"
    by simp
  also have "\<dots> = 102400 * (1 - (sin t)\<^sup>2) + (10000 - 64000 * sin t + 102400 * (sin t)\<^sup>2)"
    by (simp only: power_mult_distrib power2_diff cos_squared_eq) simp
  also have "\<dots> = 112400 - 64000 * sin t" by simp
  finally have eq: "(400 - (400 + 320 * cos t))\<^sup>2 + (500 - (400 + 320 * sin t))\<^sup>2
        = 112400 - 64000 * sin t" .
  have "4 * sin t < 7" using sin_le_one [of t] by linarith
  then have "20\<^sup>2 < 112400 - 64000 * sin t" by (simp add: power2_eq_square)
  then have "20 < sqrt (112400 - 64000 * sin t)" by (rule real_less_rsqrt)
  moreover have "distance 400 500 (divisionPoint i n) =
      sqrt ((400 - (400 + 320 * cos t))\<^sup>2 + (500 - (400 + 320 * sin t))\<^sup>2)"
    by (simp only: distance_def divisionPoint_sel center_value radius_value t_def)
  ultimately show "20 < machineDistance exact 400 500 (machinePoint exact i n)"
    by (simp only: machinePoint_exact machineDistance_exact eq)
qed

text \<open>
  Rounding decides the comparison with 20: without rounding the position \<open>(80, 380)\<close> is
  at distance exactly 20 from division point 6 of 12, so the test \<^verbatim>\<open>minDistance <= 20\<close>
  turns there on the last bit of the computed distance.
\<close>

lemma distance_on_threshold: "distance 80 380 (divisionPoint 6 12) = 20"
proof -
  have "divisionPoint 6 12 = \<lparr>px = 80, py = 400\<rparr>"
    by (simp add: divisionPoint_def center_def radius_def canvasSize_def)
  moreover have "sqrt ((380 - 400)\<^sup>2) = (20::real)" by simp
  ultimately show ?thesis by (simp add: distance_def)
qed

text \<open>
  C9. For \<open>3 \<le> n \<le> 36\<close> and \<open>i < n\<close>, division point \<open>i\<close> is the centre plus the radius
  times \<open>(cos \<theta>, sin \<theta>)\<close>, where \<open>\<theta>\<close> is \<open>i * 360 / n\<close> degrees in radians; it lies at
  distance \<open>radius\<close> from the centre, and the angle is in \<open>[0, 360)\<close> degrees.
\<close>

theorem divisionPoint_on_circle:
  assumes "3 \<le> n" and "n \<le> 36" and "i < n"
  shows "px (divisionPoint i n) = center + radius * cos ((real i * 360 / real n) * pi / 180) \<and>
         py (divisionPoint i n) = center + radius * sin ((real i * 360 / real n) * pi / 180) \<and>
         sqrt ((px (divisionPoint i n) - center)\<^sup>2 + (py (divisionPoint i n) - center)\<^sup>2) = radius \<and>
         0 \<le> real i * 360 / real n \<and> real i * 360 / real n < 360"
proof -
  have "distance center center (divisionPoint i n) = radius" by (rule distance_center)
  then have "sqrt ((px (divisionPoint i n) - center)\<^sup>2 + (py (divisionPoint i n) - center)\<^sup>2) = radius"
    by (simp add: distance_def power2_commute)
  moreover have "real i * 360 / real n < 360"
    using assms by (simp add: field_simps)
  ultimately show ?thesis by (simp add: divisionPoint_sel)
qed

theorem divisionPoint_on_circle_witness:
  "divisionPoint 3 12 = \<lparr>px = 400, py = 720\<rparr> \<and>
   sqrt ((px (divisionPoint 3 12) - center)\<^sup>2 + (py (divisionPoint 3 12) - center)\<^sup>2) = 320 \<and>
   real 3 * 360 / real 12 = 90"
proof -
  have "px (divisionPoint 3 12) = 400" "py (divisionPoint 3 12) = 720"
    using divisionPoint_on_circle [of 12 3]
    by (simp_all add: center_def radius_def canvasSize_def)
  then have "divisionPoint 3 12 = \<lparr>px = 400, py = 720\<rparr>" by (cases "divisionPoint 3 12") simp
  then show ?thesis
  using divisionPoint_on_circle [of 12 3]
  by (simp add: center_def radius_def canvasSize_def)
qed





section \<open>Properties of rule parsing\<close>

lemma digit_not_white: "isDecimalDigit c \<Longrightarrow> \<not> isWhiteSpace c"
  by (auto simp: isDecimalDigit_def isWhiteSpace_def)

lemma digit_value: "isDecimalDigit c \<Longrightarrow> digitValue c = of_char c - 48"
  by (simp add: isDecimalDigit_def digitValue_def)

lemma digit_value_less: "isDecimalDigit c \<Longrightarrow> digitValue c < 10"
  by (auto simp: isDecimalDigit_def digitValue_def)

lemma digit_not_sign: "isDecimalDigit c \<Longrightarrow> c \<noteq> CHR ''+'' \<and> c \<noteq> CHR ''-'' \<and> c \<noteq> CHR ''x'' \<and> c \<noteq> CHR ''X''"
  by (auto simp: isDecimalDigit_def)

lemma trim_digits:
  assumes "validNonNegativeInteger tok"
  shows "trim tok = tok"
proof -
  from assms obtain c cs where tok: "tok = c # cs" and c: "isDecimalDigit c"
    by (cases tok) (auto simp: validNonNegativeInteger_def)
  from assms have "isDecimalDigit (last tok)"
    by (auto simp: validNonNegativeInteger_def list_all_iff)
  then have l: "\<not> isWhiteSpace (hd (rev tok))"
    using assms by (simp add: hd_rev digit_not_white validNonNegativeInteger_def)
  have "dropWhile isWhiteSpace tok = tok"
    using tok c by (simp add: digit_not_white)
  moreover have "dropWhile isWhiteSpace (rev tok) = rev tok"
    using l tok by (cases "rev tok") auto
  ultimately show ?thesis by (simp add: trim_def)
qed

lemma foldl_digits:
  "list_all isDecimalDigit tok \<Longrightarrow>
   foldl (\<lambda>a c. a * 10 + digitValue c) k tok = foldl (\<lambda>a c. 10 * a + ((of_char c :: nat) - 48)) k tok"
  by (induction tok arbitrary: k) (simp_all add: digit_value mult.commute)

lemma parseInt_digits:
  assumes "validNonNegativeInteger tok"
  shows "parseInt tok = Some (int (decimalValue tok))"
proof -
  from assms obtain c cs where tok: "tok = c # cs" and c: "isDecimalDigit c"
    and cs: "list_all isDecimalDigit cs"
    by (cases tok) (auto simp: validNonNegativeInteger_def)
  have S: "dropWhile isWhiteSpace tok = tok"
    using tok c by (simp add: digit_not_white)
  have nohex: "take 2 tok \<noteq> ''0x'' \<and> take 2 tok \<noteq> ''0X''"
    using tok cs by (cases cs) (auto dest: digit_not_sign)
  have Z: "takeWhile (\<lambda>c. digitValue c < 10) tok = tok"
    using assms by (auto simp: validNonNegativeInteger_def list_all_iff digit_value_less)
  have all: "list_all isDecimalDigit tok"
    using assms by (simp add: validNonNegativeInteger_def)
  show ?thesis
    using nohex digit_not_sign [OF c]
    by (simp add: parseInt_def S Z Let_def decimalValue_def foldl_digits [OF all])
       (simp add: tok)
qed

lemma split_no_sep: "sep \<notin> set t \<Longrightarrow> split sep t = [t]"
  by (induction t) auto

lemma split_at_sep: "sep \<notin> set t \<Longrightarrow> split sep (t @ sep # rest) = t # split sep rest"
  by (induction t) auto

lemma digits_no_plus: "list_all isDecimalDigit t \<Longrightarrow> CHR ''+'' \<notin> set t"
  by (auto simp: list_all_iff dest: digit_not_sign)

lemma parseRule_digits:
  assumes "validNonNegativeInteger t1" and "validNonNegativeInteger t2"
  shows "parseRule (t1 @ ''+'' @ t2) = (Some (int (decimalValue t1)), Some (int (decimalValue t2)))"
proof -
  have "split CHR ''+'' (t1 @ ''+'' @ t2) = [t1, t2]"
    using assms by (simp add: validNonNegativeInteger_def split_at_sep split_no_sep digits_no_plus)
  then show ?thesis
    using assms by (simp add: parseRule_def element_def trim_digits parseInt_digits)
qed

lemma digitChar_digit: "d < 10 \<Longrightarrow> isDecimalDigit (digitChar d) \<and> of_char (digitChar d) = 48 + d"
proof -
  assume "d < 10"
  then have "d \<in> {0, 1, 2, 3, 4, 5, 6, 7, 8, 9}" by auto
  then show ?thesis
    by (auto simp: digitChar_def isDecimalDigit_def)
qed

lemma showNat_valid: "validNonNegativeInteger (showNat n)"
proof (induction n rule: showNat.induct)
  case (1 n)
  show ?case
  proof (cases "n < 10")
    case True
    then show ?thesis
      by (subst showNat.simps) (simp add: validNonNegativeInteger_def digitChar_digit)
  next
    case False
    with 1 have "validNonNegativeInteger (showNat (n div 10))" by simp
    moreover have "isDecimalDigit (digitChar (n mod 10))" by (simp add: digitChar_digit)
    ultimately show ?thesis
      using False by (subst showNat.simps) (simp add: validNonNegativeInteger_def)
  qed
qed

lemma showNat_value: "decimalValue (showNat n) = n"
proof (induction n rule: showNat.induct)
  case (1 n)
  show ?case
  proof (cases "n < 10")
    case True
    then show ?thesis
      by (subst showNat.simps) (simp add: decimalValue_def digitChar_digit)
  next
    case False
    with 1 have "decimalValue (showNat (n div 10)) = n div 10" by simp
    then show ?thesis
      using False by (subst showNat.simps) (simp add: decimalValue_def digitChar_digit)
  qed
qed

lemma parseRule_newRule:
  "parseRule (newRule (int a) (int b)) = (Some (int a), Some (int b))"
  using parseRule_digits [OF showNat_valid showNat_valid, of a b]
  by (simp add: newRule_def numberToString_def showNat_value)


lemma handleAddRule_alert_iff:
  "snd (handleAddRule s) \<noteq> None \<longleftrightarrow>
   \<not> (\<exists>a b. parseRule (currentRule s) = (Some a, Some b) \<and>
             0 \<le> a \<and> a < int (divisions s) \<and> 0 \<le> b \<and> b < int (divisions s))"
  by (auto simp: handleAddRule_def split: prod.splits option.splits)

lemma handleAddRule_alert_unchanged:
  "snd (handleAddRule s) \<noteq> None \<Longrightarrow> handleAddRule s = (s, Some invalidRuleMessage)"
  by (auto simp: handleAddRule_def split: prod.splits option.splits if_splits)

text \<open>
  C3, as the specification states it, fails: the first token of \<^verbatim>\<open>3abc+2\<close> is not a
  valid non-negative integer, yet with 12 divisions the handler raises no alert and
  adds the rule \<^verbatim>\<open>3+2\<close>, because \<^verbatim>\<open>parseInt\<close> reads the leading digits and ignores the
  rest.
\<close>

theorem handleAddRule_trailing_text_counterexample:
  "\<not> validNonNegativeInteger ''3abc'' \<and>
   \<not> specAccepts 12 ''3abc+2'' \<and>
   divisions initialState = 12 \<and>
   submitRule initialState ''3abc+2'' = (initialState\<lparr>rules := [''3+2'']\<rparr>, None)"
  by code_simp

text \<open>
  C3, amended. The handler raises the alert exactly when \<^verbatim>\<open>parseInt\<close> of the trimmed
  first or second token is \<^verbatim>\<open>NaN\<close> (a missing second token included), or a parsed value
  is negative or not below the division count. Every call that raises the alert
  returns the state unchanged. When both tokens are decimal numerals, the alert is
  raised exactly when one of them is not below the division count.
\<close>

theorem handleAddRule_failure:
  "(snd (handleAddRule s) \<noteq> None \<longleftrightarrow>
      \<not> (\<exists>a b. parseRule (currentRule s) = (Some a, Some b) \<and>
                0 \<le> a \<and> a < int (divisions s) \<and> 0 \<le> b \<and> b < int (divisions s))) \<and>
   (snd (handleAddRule s) \<noteq> None \<longrightarrow> handleAddRule s = (s, Some invalidRuleMessage)) \<and>
   (validNonNegativeInteger t1 \<and> validNonNegativeInteger t2 \<and> currentRule s = t1 @ ''+'' @ t2 \<longrightarrow>
      (snd (handleAddRule s) \<noteq> None \<longleftrightarrow>
         divisions s \<le> decimalValue t1 \<or> divisions s \<le> decimalValue t2))"
proof (intro conjI impI)
  show "snd (handleAddRule s) \<noteq> None \<longleftrightarrow>
      \<not> (\<exists>a b. parseRule (currentRule s) = (Some a, Some b) \<and>
                0 \<le> a \<and> a < int (divisions s) \<and> 0 \<le> b \<and> b < int (divisions s))"
    by (rule handleAddRule_alert_iff)
next
  assume "snd (handleAddRule s) \<noteq> None"
  then show "handleAddRule s = (s, Some invalidRuleMessage)"
    by (rule handleAddRule_alert_unchanged)
next
  assume "validNonNegativeInteger t1 \<and> validNonNegativeInteger t2 \<and> currentRule s = t1 @ ''+'' @ t2"
  then have "parseRule (currentRule s) = (Some (int (decimalValue t1)), Some (int (decimalValue t2)))"
    using parseRule_digits [of t1 t2] by simp
  then show "snd (handleAddRule s) \<noteq> None \<longleftrightarrow>
         divisions s \<le> decimalValue t1 \<or> divisions s \<le> decimalValue t2"
    by (simp only: handleAddRule_alert_iff) auto
qed

theorem handleAddRule_failure_witness:
  "validNonNegativeInteger ''12'' \<and> validNonNegativeInteger ''1'' \<and>
   currentRule (initialState\<lparr>currentRule := ''12+1''\<rparr>) = ''12'' @ ''+'' @ ''1'' \<and>
   divisions initialState \<le> decimalValue ''12'' \<and>
   handleAddRule (initialState\<lparr>currentRule := ''12+1''\<rparr>) =
     (initialState\<lparr>currentRule := ''12+1''\<rparr>, Some invalidRuleMessage)"
proof -
  have v: "validNonNegativeInteger ''12''" "validNonNegativeInteger ''1''"
    by (simp_all add: validNonNegativeInteger_def isDecimalDigit_def)
  have d: "decimalValue ''12'' = 12"
    by (simp add: decimalValue_def)
  have c: "currentRule (initialState\<lparr>currentRule := ''12+1''\<rparr>) = ''12'' @ ''+'' @ ''1''"
    by simp
  have n: "divisions (initialState\<lparr>currentRule := ''12+1''\<rparr>) = 12"
    by (simp add: initialState_def)
  note inst = handleAddRule_failure [of "initialState\<lparr>currentRule := ''12+1''\<rparr>" "''12''" "''1''"]
  from inst [THEN conjunct2, THEN conjunct2] v c
  have "snd (handleAddRule (initialState\<lparr>currentRule := ''12+1''\<rparr>)) \<noteq> None"
    by (simp only: d n) simp
  with inst [THEN conjunct2, THEN conjunct1]
  have "handleAddRule (initialState\<lparr>currentRule := ''12+1''\<rparr>) =
     (initialState\<lparr>currentRule := ''12+1''\<rparr>, Some invalidRuleMessage)"
    by blast
  with v c d show ?thesis by (simp add: initialState_def)
qed

lemma parseRule_0_3: "parseRule ''0+3'' = (Some 0, Some 3)"
  by code_simp

lemma newRule_0_3: "newRule 0 3 = ''0+3''"
  by code_simp

lemma handleAddRule_duplicate:
  assumes "parseRule (currentRule s) = (Some a, Some b)"
    and "0 \<le> a" "a < int (divisions s)" "0 \<le> b" "b < int (divisions s)"
    and "newRule a b \<in> set (rules s)"
  shows "handleAddRule s = (s, None)"
  using assms by (simp add: handleAddRule_def)

lemma submitRule_0_3_new:
  assumes "3 < divisions s" and "''0+3'' \<notin> set (rules s)"
  shows "submitRule s ''0+3'' = (s\<lparr>rules := rules s @ [''0+3''], currentRule := ''''\<rparr>, None)"
  using assms by (simp add: submitRule_def handleAddRule_def parseRule_0_3 newRule_0_3)

lemma submitRule_0_3_present:
  assumes "3 < divisions s" and "''0+3'' \<in> set (rules s)"
  shows "submitRule s ''0+3'' = (s\<lparr>currentRule := ''0+3''\<rparr>, None)"
  using assms by (simp add: submitRule_def handleAddRule_def parseRule_0_3 newRule_0_3)

lemma count_list_absent: "x \<notin> set xs \<Longrightarrow> count_list xs x = 0"
  by (induction xs) auto

lemma handleAddRule_rules_kept:
  assumes "parseRule (currentRule s) = (Some a, Some b)" and "newRule a b \<in> set (rules s)"
  shows "rules (fst (handleAddRule s)) = rules s"
  using assms by (simp add: handleAddRule_def)

text \<open>
  C5, as the specification states it, fails: with 3 divisions and the rule \<^verbatim>\<open>0+11\<close> in
  the rule set (added when there were more divisions; the slider changes the count
  and keeps the rules), submitting \<^verbatim>\<open>0+11\<close> again raises the alert. The range test
  comes before the test for a duplicate.
\<close>

theorem duplicate_out_of_range_counterexample:
  "parseRule ''0+11'' = (Some 0, Some 11) \<and>
   newRule 0 11 = ''0+11'' \<and>
   newRule 0 11 \<in> set (rules (initialState\<lparr>divisions := 3, rules := [''0+11'']\<rparr>)) \<and>
   submitRule (initialState\<lparr>divisions := 3, rules := [''0+11'']\<rparr>) ''0+11'' =
     (initialState\<lparr>divisions := 3, rules := [''0+11''], currentRule := ''0+11''\<rparr>,
      Some invalidRuleMessage)"
  by code_simp

text \<open>
  C5, amended. A submitted rule that is in range for the current division count and
  whose canonical text is already in the rule set returns the state unchanged and
  raises no alert; a submitted rule whose canonical text is in the rule set leaves the
  rule set unchanged, in range or not. In particular, from a state with more than 3
  divisions whose rule set lacks \<^verbatim>\<open>0+3\<close>, submitting \<^verbatim>\<open>0+3\<close> twice adds it once: the
  second submission changes nothing, and the rule set holds it exactly once.
\<close>

theorem duplicate_rule_ignored:
  "(parseRule (currentRule s) = (Some a, Some b) \<and>
    0 \<le> a \<and> a < int (divisions s) \<and> 0 \<le> b \<and> b < int (divisions s) \<and>
    newRule a b \<in> set (rules s) \<longrightarrow> handleAddRule s = (s, None)) \<and>
   (parseRule (currentRule s) = (Some a, Some b) \<and> newRule a b \<in> set (rules s) \<longrightarrow>
      rules (fst (handleAddRule s)) = rules s) \<and>
   (3 < divisions s \<and> ''0+3'' \<notin> set (rules s) \<longrightarrow>
      rules (fst (submitRule s ''0+3'')) = rules s @ [''0+3''] \<and>
      submitRule (fst (submitRule s ''0+3'')) ''0+3'' =
        ((fst (submitRule s ''0+3''))\<lparr>currentRule := ''0+3''\<rparr>, None) \<and>
      count_list (rules (fst (submitRule (fst (submitRule s ''0+3'')) ''0+3''))) ''0+3'' = 1)"
proof (intro conjI impI)
  assume "parseRule (currentRule s) = (Some a, Some b) \<and>
    0 \<le> a \<and> a < int (divisions s) \<and> 0 \<le> b \<and> b < int (divisions s) \<and>
    newRule a b \<in> set (rules s)"
  then show "handleAddRule s = (s, None)"
    by (simp add: handleAddRule_duplicate)
next
  assume "parseRule (currentRule s) = (Some a, Some b) \<and> newRule a b \<in> set (rules s)"
  then show "rules (fst (handleAddRule s)) = rules s"
    by (simp add: handleAddRule_rules_kept)
next
  assume h: "3 < divisions s \<and> ''0+3'' \<notin> set (rules s)"
  let ?s1 = "fst (submitRule s ''0+3'')"
  from h have s1: "?s1 = s\<lparr>rules := rules s @ [''0+3''], currentRule := ''''\<rparr>"
    by (simp add: submitRule_0_3_new)
  show r1: "rules ?s1 = rules s @ [''0+3'']"
    by (simp add: s1)
  have "3 < divisions ?s1" "''0+3'' \<in> set (rules ?s1)"
    using h by (simp_all add: s1)
  then show again: "submitRule ?s1 ''0+3'' = (?s1\<lparr>currentRule := ''0+3''\<rparr>, None)"
    by (rule submitRule_0_3_present)
  show "count_list (rules (fst (submitRule ?s1 ''0+3''))) ''0+3'' = 1"
    using h by (simp only: again) (simp add: r1 count_list_absent)
qed

theorem duplicate_rule_ignored_witness:
  "parseRule (currentRule (initialState\<lparr>rules := [''1+2''], currentRule := ''1+2''\<rparr>)) = (Some 1, Some 2) \<and>
   newRule 1 2 \<in> set (rules (initialState\<lparr>rules := [''1+2''], currentRule := ''1+2''\<rparr>)) \<and>
   handleAddRule (initialState\<lparr>rules := [''1+2''], currentRule := ''1+2''\<rparr>) =
     (initialState\<lparr>rules := [''1+2''], currentRule := ''1+2''\<rparr>, None) \<and>
   rules (fst (handleAddRule
     (initialState\<lparr>divisions := 3, rules := [''0+11''], currentRule := ''0+11''\<rparr>))) = [''0+11''] \<and>
   rules (fst (submitRule (fst (submitRule initialState ''0+3'')) ''0+3'')) = [''0+3'']"
proof -
  let ?t = "initialState\<lparr>divisions := 3, rules := [''0+11''], currentRule := ''0+11''\<rparr>"
  have pt: "parseRule (currentRule ?t) = (Some 0, Some 11)" by code_simp
  have mt: "newRule 0 11 \<in> set (rules ?t)" by code_simp
  from duplicate_rule_ignored [of ?t 0 11, THEN conjunct2, THEN conjunct1] pt mt
  have kept: "rules (fst (handleAddRule ?t)) = [''0+11'']"
    by simp
  let ?s = "initialState\<lparr>rules := [''1+2''], currentRule := ''1+2''\<rparr>"
  have p: "parseRule (currentRule ?s) = (Some 1, Some 2)" by code_simp
  have m: "newRule 1 2 \<in> set (rules ?s)" by code_simp
  have d: "divisions ?s = 12" by (simp add: initialState_def)
  from duplicate_rule_ignored [of ?s 1 2, THEN conjunct1] p m
  have dup: "handleAddRule ?s = (?s, None)"
    by (simp only: d) simp
  have i: "3 < divisions initialState \<and> ''0+3'' \<notin> set (rules initialState)"
    by (simp add: initialState_def)
  note twice =
    duplicate_rule_ignored [of initialState 0 0, THEN conjunct2, THEN conjunct2, rule_format, OF i]
  have "rules (fst (submitRule (fst (submitRule initialState ''0+3'')) ''0+3'')) = [''0+3'']"
    using twice by (simp add: initialState_def)
  with p m dup kept show ?thesis by simp
qed

section \<open>Properties of the rule lines\<close>

lemma jsRem_nat: "jsRem (int i + int k) (int n) = int ((i + k) mod n)"
proof (cases "i + k = 0")
  case True
  then show ?thesis by (simp add: jsRem_def)
next
  case False
  then have "0 < int i + int k" by linarith
  then have "sgn (int i + int k) = 1" by (simp only: sgn_pos)
  then show ?thesis
    by (simp add: jsRem_def zmod_int abs_of_nonneg)
qed

lemma rule_point:
  "\<lparr>px = center + radius * cos ((real i / real n) * 2 * pi),
    py = center + radius * sin ((real i / real n) * 2 * pi)\<rparr> = divisionPoint i n"
proof -
  have "(real i / real n) * 2 * pi = ((real i * 360) / real n * pi) / 180"
    by simp
  then show ?thesis
    by (simp only: divisionPoint_def Let_def)
qed

lemma ruleSegments_newRule:
  "ruleSegments n (newRule (int start) (int offset)) =
   map (\<lambda>i. (divisionPoint i n, Some (divisionPoint ((i + offset) mod n) n))) [0..<n]"
proof -
  have "snd (parseRule (newRule (int start) (int offset))) = Some (int offset)"
    by (simp add: parseRule_newRule)
  then show ?thesis
    by (simp only: ruleSegments_def Let_def option.map jsRem_nat of_int_of_nat_eq rule_point)
qed

lemma strokeSegment_Some:
  "strokeSegment (p, Some e) = [BeginPath, MoveTo (px p) (py p), LineTo (px e) (py e), Stroke]"
  by (simp add: strokeSegment_def)

text \<open>
  C6. For the text of a rule \<open>(start, offset)\<close> as \<^verbatim>\<open>handleAddRule\<close> stores it and every
  division count \<open>n\<close>, the inner loop of \<^verbatim>\<open>drawRuleLines\<close> computes exactly \<open>n\<close> segments,
  the \<open>i\<close>-th from division point \<open>i\<close> to division point \<open>(i + offset) mod n\<close>. With
  offset 0 the \<open>n\<close> segments from a point to itself are all computed and all stroked.
\<close>

theorem ruleSegments_expansion:
  "length (ruleSegments n (newRule (int start) (int offset))) = n \<and>
   ruleSegments n (newRule (int start) (int offset)) =
     map (\<lambda>i. (divisionPoint i n, Some (divisionPoint ((i + offset) mod n) n))) [0..<n] \<and>
   ruleSegments n (newRule (int start) 0) =
     map (\<lambda>i. (divisionPoint i n, Some (divisionPoint i n))) [0..<n] \<and>
   drawRuleLines (s\<lparr>divisions := n, rules := [newRule (int start) 0]\<rparr>) =
     SetStrokeStyle ruleLineColor #
     concat (map (\<lambda>i. [BeginPath,
                        MoveTo (px (divisionPoint i n)) (py (divisionPoint i n)),
                        LineTo (px (divisionPoint i n)) (py (divisionPoint i n)),
                        Stroke]) [0..<n])"
proof -
  have zero: "ruleSegments n (newRule (int start) 0) =
     map (\<lambda>i. (divisionPoint i n, Some (divisionPoint i n))) [0..<n]"
    using ruleSegments_newRule [of n start 0] by simp
  have "drawRuleLines (s\<lparr>divisions := n, rules := [newRule (int start) 0]\<rparr>) =
     SetStrokeStyle ruleLineColor #
     concat (map strokeSegment (map (\<lambda>i. (divisionPoint i n, Some (divisionPoint i n))) [0..<n]))"
    by (simp add: drawRuleLines_def zero)
  then show ?thesis
    by (simp add: ruleSegments_newRule zero strokeSegment_Some comp_def)
qed

theorem ruleSegments_expansion_witness:
  "length (ruleSegments 12 ''0+3'') = 12 \<and>
   ruleSegments 12 ''0+3'' ! 0 = (divisionPoint 0 12, Some (divisionPoint 3 12)) \<and>
   ruleSegments 12 ''0+3'' ! 11 = (divisionPoint 11 12, Some (divisionPoint 2 12))"
  using ruleSegments_expansion [of 12 0 3] newRule_0_3
  by simp

section \<open>Properties of the strokes\<close>

lemma pressedAfterUndo_value:
  "pressedAfterUndo ar =
     drawingState\<lparr>redoStack := [[]], startPoint := Some (snapToPoint ar 12 400 400),
                   isDrawing := True\<rparr>"
  by (simp add: pressedAfterUndo_def drawingState_def initialState_def handleResetDrawing_def
        handleUndo_def startDrawing_def)

lemma strokeLine_exact_A: "strokeLine exact 400 400 400 500 = lineA"
  by (simp add: strokeLine_def lineA_def snapToPoint_center snapToPoint_below_center)

lemma strokeLine_exact_B: "strokeLine exact 400 500 400 400 = lineB"
  by (simp add: strokeLine_def lineB_def snapToPoint_center snapToPoint_below_center)

text \<open>
  C1. The code at a stroke in progress in point-to-point mode, begun after a reset and
  an undo (empty manual layer, empty undo stack, one entry on the redo stack), in any
  arithmetic: \<^verbatim>\<open>stopDrawing\<close> appends exactly the line from the recorded start to the
  snapped end, with the current colour and thickness, but pushes nothing onto the undo
  stack and leaves the redo stack as it was. Without rounding the start is \<open>(400, 400)\<close>
  and the line is the one from \<open>(400, 400)\<close> to \<open>(400, 500)\<close>.
\<close>

theorem stopDrawing_leaves_history:
  "isDrawing (pressedAfterUndo ar) \<and> \<not> freeDrawing (pressedAfterUndo ar) \<and>
   startPoint (pressedAfterUndo ar) = Some (snapToPoint ar 12 400 400) \<and>
   drawnLines (pressedAfterUndo ar) = [] \<and>
   undoStack (pressedAfterUndo ar) = [] \<and> redoStack (pressedAfterUndo ar) = [[]] \<and>
   drawnLines (fst (stopDrawing ar (pressedAfterUndo ar) 400 500)) =
     [strokeLine ar 400 400 400 500] \<and>
   undoStack (fst (stopDrawing ar (pressedAfterUndo ar) 400 500)) = [] \<and>
   redoStack (fst (stopDrawing ar (pressedAfterUndo ar) 400 500)) = [[]] \<and>
   startPoint (pressedAfterUndo exact) = Some \<lparr>px = 400, py = 400\<rparr> \<and>
   drawnLines (fst (stopDrawing exact (pressedAfterUndo exact) 400 500)) = [lineA]"
proof -
  have general: "drawnLines (fst (stopDrawing a (pressedAfterUndo a) 400 500)) =
      [strokeLine a 400 400 400 500]" for a
    by (simp add: pressedAfterUndo_value drawingState_def initialState_def stopDrawing_def
          strokeLine_def)
  have stacks: "undoStack (fst (stopDrawing ar (pressedAfterUndo ar) 400 500)) = [] \<and>
      redoStack (fst (stopDrawing ar (pressedAfterUndo ar) 400 500)) = [[]]"
    by (simp add: pressedAfterUndo_value drawingState_def initialState_def stopDrawing_def)
  have before: "isDrawing (pressedAfterUndo ar) \<and> \<not> freeDrawing (pressedAfterUndo ar) \<and>
      startPoint (pressedAfterUndo ar) = Some (snapToPoint ar 12 400 400) \<and>
      drawnLines (pressedAfterUndo ar) = [] \<and>
      undoStack (pressedAfterUndo ar) = [] \<and> redoStack (pressedAfterUndo ar) = [[]]"
    by (simp add: pressedAfterUndo_value drawingState_def initialState_def)
  have "startPoint (pressedAfterUndo exact) = Some \<lparr>px = 400, py = 400\<rparr>"
    by (simp add: pressedAfterUndo_value snapToPoint_center)
  with general [of ar] general [of exact] stacks before show ?thesis
    by (simp only: strokeLine_exact_A) simp
qed

lemma stroke_first:
  "stroke ar drawingState x0 y0 x1 y1 =
   drawingState\<lparr>drawnLines := [strokeLine ar x0 y0 x1 y1]\<rparr>"
  by (simp add: stroke_def drawingState_def initialState_def startDrawing_def stopDrawing_def
        strokeLine_def)

lemma stroke_second:
  "stroke ar (drawingState\<lparr>drawnLines := ls\<rparr>) x0 y0 x1 y1 =
   drawingState\<lparr>drawnLines := ls @ [strokeLine ar x0 y0 x1 y1]\<rparr>"
  by (simp add: stroke_def drawingState_def initialState_def startDrawing_def stopDrawing_def
        strokeLine_def)

text \<open>
  C2. The code on the sequence stroke A, stroke B, undo, undo, redo, from the initial
  state with drawing mode on, in any arithmetic: no stroke reaches the undo stack, so
  the three history calls change nothing and the manual layer is \<open>[A, B]\<close>, not \<open>[A]\<close>.
  Without rounding A is the line from \<open>(400, 400)\<close> to \<open>(400, 500)\<close> and B the line back.
\<close>

theorem undo_after_strokes_does_nothing:
  "undoStack drawingState = [] \<and> redoStack drawingState = [] \<and> drawnLines drawingState = [] \<and>
   drawnLines (stroke ar drawingState 400 400 400 500) = [strokeLine ar 400 400 400 500] \<and>
   drawnLines (handleRedo (handleUndo (handleUndo
      (stroke ar (stroke ar drawingState 400 400 400 500) 400 500 400 400)))) =
     [strokeLine ar 400 400 400 500, strokeLine ar 400 500 400 400] \<and>
   drawnLines (stroke exact drawingState 400 400 400 500) = [lineA] \<and>
   drawnLines (handleRedo (handleUndo (handleUndo
      (stroke exact (stroke exact drawingState 400 400 400 500) 400 500 400 400)))) =
     [lineA, lineB]"
proof -
  have final: "drawnLines (handleRedo (handleUndo (handleUndo
      (stroke a (stroke a drawingState 400 400 400 500) 400 500 400 400)))) =
     [strokeLine a 400 400 400 500, strokeLine a 400 500 400 400]" for a
    by (simp add: stroke_first stroke_second handleUndo_def handleRedo_def)
       (simp add: drawingState_def initialState_def)
  have first: "drawnLines (stroke a drawingState 400 400 400 500) =
      [strokeLine a 400 400 400 500]" for a
    by (simp add: stroke_first)
  have "undoStack drawingState = [] \<and> redoStack drawingState = [] \<and> drawnLines drawingState = []"
    by (simp add: drawingState_def initialState_def)
  with final [of ar] final [of exact] first [of ar] first [of exact] show ?thesis
    by (simp only: strokeLine_exact_A strokeLine_exact_B)
qed

lemma startDrawing_frame:
  "drawnLines (fst (startDrawing ar s x y)) = drawnLines s \<and>
   undoStack (fst (startDrawing ar s x y)) = undoStack s \<and>
   redoStack (fst (startDrawing ar s x y)) = redoStack s \<and>
   freeDrawing (fst (startDrawing ar s x y)) = freeDrawing s"
  by (simp add: startDrawing_def)

lemma stopDrawing_freehand_frame:
  "freeDrawing s \<Longrightarrow>
   drawnLines (fst (stopDrawing ar s x y)) = drawnLines s \<and>
   undoStack (fst (stopDrawing ar s x y)) = undoStack s \<and>
   redoStack (fst (stopDrawing ar s x y)) = redoStack s"
  by (simp add: stopDrawing_def)

text \<open>
  C10. In freehand mode \<^verbatim>\<open>startDrawing\<close>, \<^verbatim>\<open>draw\<close> and \<^verbatim>\<open>stopDrawing\<close>, and a whole stroke
  made of them, leave the manual layer, the undo stack and the redo stack as they
  were, in any arithmetic: \<^verbatim>\<open>draw\<close> returns the state it was given, and the three only
  call the context (begin a path and move, line and stroke, begin a path). A repaint
  by \<^verbatim>\<open>drawCircle\<close> begins by clearing the whole canvas and paints from the state alone.
\<close>

theorem freehand_strokes_not_recorded:
  assumes "freeDrawing s"
  shows "drawnLines (fst (startDrawing ar s x y)) = drawnLines s \<and>
         undoStack (fst (startDrawing ar s x y)) = undoStack s \<and>
         redoStack (fst (startDrawing ar s x y)) = redoStack s \<and>
         snd (startDrawing ar s x y) = (if drawingMode s then [BeginPath, MoveTo x y] else []) \<and>
         draw ar s x y =
           Inr (s, if isDrawing s \<and> drawingMode s then [LineTo x y, Stroke] else []) \<and>
         drawnLines (fst (stopDrawing ar s x y)) = drawnLines s \<and>
         undoStack (fst (stopDrawing ar s x y)) = undoStack s \<and>
         redoStack (fst (stopDrawing ar s x y)) = redoStack s \<and>
         snd (stopDrawing ar s x y) = (if isDrawing s then [BeginPath] else []) \<and>
         drawnLines (stroke ar s x y x' y') = drawnLines s \<and>
         undoStack (stroke ar s x y x' y') = undoStack s \<and>
         redoStack (stroke ar s x y x' y') = redoStack s \<and>
         take 1 (drawCircle s) = [ClearRect 0 0 canvasSize canvasSize]"
proof -
  have "freeDrawing (fst (startDrawing ar s x y))"
    using assms by (simp add: startDrawing_frame)
  then have "drawnLines (stroke ar s x y x' y') = drawnLines s \<and>
         undoStack (stroke ar s x y x' y') = undoStack s \<and>
         redoStack (stroke ar s x y x' y') = redoStack s"
    by (simp add: stroke_def stopDrawing_freehand_frame startDrawing_frame)
  moreover have "snd (startDrawing ar s x y) =
      (if drawingMode s then [BeginPath, MoveTo x y] else [])"
    using assms by (simp add: startDrawing_def)
  moreover have "draw ar s x y =
      Inr (s, if isDrawing s \<and> drawingMode s then [LineTo x y, Stroke] else [])"
    using assms by (simp add: draw_def)
  moreover have "snd (stopDrawing ar s x y) = (if isDrawing s then [BeginPath] else [])"
    by (simp add: stopDrawing_def Let_def)
  moreover have "take 1 (drawCircle s) = [ClearRect 0 0 canvasSize canvasSize]"
    by (simp add: drawCircle_def)
  ultimately show ?thesis
    using assms by (simp only: startDrawing_frame stopDrawing_freehand_frame)
qed

theorem freehand_strokes_not_recorded_witness:
  "freeDrawing (drawingState\<lparr>freeDrawing := True\<rparr>) \<and>
   startDrawing exact (drawingState\<lparr>freeDrawing := True\<rparr>) 10 20 =
     (drawingState\<lparr>freeDrawing := True, isDrawing := True\<rparr>, [BeginPath, MoveTo 10 20]) \<and>
   draw exact (drawingState\<lparr>freeDrawing := True, isDrawing := True\<rparr>) 30 40 =
     Inr (drawingState\<lparr>freeDrawing := True, isDrawing := True\<rparr>, [LineTo 30 40, Stroke]) \<and>
   drawnLines (stroke exact (drawingState\<lparr>freeDrawing := True\<rparr>) 10 20 30 40) = [] \<and>
   undoStack (stroke exact (drawingState\<lparr>freeDrawing := True\<rparr>) 10 20 30 40) = [] \<and>
   redoStack (stroke exact (drawingState\<lparr>freeDrawing := True\<rparr>) 10 20 30 40) = []"
proof -
  have f: "freeDrawing (drawingState\<lparr>freeDrawing := True\<rparr>)"
     "freeDrawing (drawingState\<lparr>freeDrawing := True, isDrawing := True\<rparr>)" by simp_all
  have "startDrawing exact (drawingState\<lparr>freeDrawing := True\<rparr>) 10 20 =
     (drawingState\<lparr>freeDrawing := True, isDrawing := True\<rparr>, [BeginPath, MoveTo 10 20])"
    by (simp add: startDrawing_def drawingState_def)
  moreover have "draw exact (drawingState\<lparr>freeDrawing := True, isDrawing := True\<rparr>) 30 40 =
     Inr (drawingState\<lparr>freeDrawing := True, isDrawing := True\<rparr>, [LineTo 30 40, Stroke])"
    using freehand_strokes_not_recorded [OF f(2), of exact 30 40]
    by (simp add: drawingState_def)
  moreover have "drawnLines (stroke exact (drawingState\<lparr>freeDrawing := True\<rparr>) 10 20 30 40) = [] \<and>
   undoStack (stroke exact (drawingState\<lparr>freeDrawing := True\<rparr>) 10 20 30 40) = [] \<and>
   redoStack (stroke exact (drawingState\<lparr>freeDrawing := True\<rparr>) 10 20 30 40) = []"
    using freehand_strokes_not_recorded [OF f(1), of exact 10 20 30 40]
    by (simp add: drawingState_def initialState_def)
  ultimately show ?thesis using f by simp
qed

end
